theory Spec2Isabelle
  imports Main "HOL-Library.Sublist"
begin

section \<open>Anchr: webhook relay, subscriber-side filter and forwarding engine\<close>

text \<open>
  A shallow embedding of the event pipeline of the Anchr repository:
  \<^item> \<open>src/src/shared/types.ts\<close>: the interfaces, as records;
  \<^item> \<open>src/src/cli/index.ts\<close>: \<open>AnchrCLI.handleEvent\<close>, \<open>EventForwarder\<close>,
    \<open>createWebhookEvent\<close>, \<open>sanitizeHeaders\<close>;
  \<^item> \<open>src/src/server/websocket.ts\<close>: \<open>WebSocketServer\<close>, \<open>WebhookReceiver\<close>;
  \<^item> \<open>src/src/server/index.ts\<close>: \<open>WebSocketClient\<close>.

  JavaScript strings are modelled as \<^typ>\<open>string\<close>, \<open>===\<close> on strings as equality,
  \<open>String.prototype.startsWith\<close> as \<^const>\<open>prefix\<close>, arrays as lists, an optional
  field or an \<open>undefined\<close> value as \<^typ>\<open>'a option\<close>. Mutation of \<open>this\<close> is explicit state
  passing, and what a method does to the outside (a response written, a callback
  invoked, a message emitted) is recorded as a list of effects in program order.
\<close>

subsection \<open>Data model (\<open>src/shared/types.ts\<close>)\<close>

text \<open>
  \<open>Record<string, string>\<close>: the own enumerable properties of an object in the order
  \<open>Object.entries\<close> lists them. An object holds each key once, which is the
  well-formedness condition \<open>distinct (map fst h)\<close> where a statement needs it.
\<close>

type_synonym headers = "(string \<times> string) list"

text \<open>
  \<open>WebhookEvent\<close>. The \<open>timestamp\<close> is the time value of the \<open>Date\<close> in milliseconds;
  \<open>body\<close> is of type \<open>any\<close> and is never inspected, so it is a type parameter with
  \<open>None\<close> for \<open>undefined\<close>.
\<close>

record 'b WebhookEvent =
  ev_id :: string
  ev_timestamp :: int
  ev_source :: string
  ev_endpoint :: string
  ev_headers :: headers
  ev_body :: "'b option"
  ev_method :: string
  ev_ip :: string
  ev_userAgent :: "string option"

record ForwardResult =
  fr_success :: bool
  fr_endpoint :: string
  fr_statusCode :: "nat option"
  fr_error :: "string option"
  fr_responseTime :: "int option"

subsection \<open>Endpoint filter (\<open>AnchrCLI.handleEvent\<close>, lines 153-164)\<close>

text \<open>
  The guard of \<open>handleEvent\<close>: with \<open>subscribeEndpoints\<close> undefined or empty the filter
  is skipped; otherwise \<open>Array.prototype.some\<close> over the list decides, and the method
  returns early when no entry matches.
\<close>

definition shouldProcess :: "'b WebhookEvent \<Rightarrow> string list \<Rightarrow> bool" where
  "shouldProcess event subscribeEndpoints =
     list_ex (\<lambda>endpoint. ev_endpoint event = endpoint \<or> prefix endpoint (ev_endpoint event))
       subscribeEndpoints"

definition passesFilter :: "'b WebhookEvent \<Rightarrow> string list option \<Rightarrow> bool" where
  "passesFilter event subscribeEndpoints =
     (case subscribeEndpoints of
        None \<Rightarrow> True
      | Some eps \<Rightarrow> if length eps > 0 then shouldProcess event eps else True)"

subsection \<open>Target list of the forwarding engine (\<open>EventForwarder\<close>, lines 337-359)\<close>

text \<open>The field \<open>endpoints\<close> of the forwarder, passed and returned explicitly.\<close>

definition addEndpoint :: "string list \<Rightarrow> string \<Rightarrow> string list" where
  "addEndpoint endpoints endpoint =
     (if endpoint \<notin> set endpoints then endpoints @ [endpoint] else endpoints)"

definition removeEndpoint :: "string list \<Rightarrow> string \<Rightarrow> string list" where
  "removeEndpoint endpoints endpoint = remove1 endpoint endpoints"

definition setEndpoints :: "string list \<Rightarrow> string list \<Rightarrow> string list" where
  "setEndpoints endpoints new_endpoints = new_endpoints"

subsection \<open>Header sanitization (\<open>sanitizeHeaders\<close>, lines 424-437)\<close>

text \<open>
  \<open>String.prototype.toLowerCase\<close> on the letters \<open>A\<close> to \<open>Z\<close>; every other character
  of an HTTP header name (an ASCII token) is left as it is.
\<close>

definition lower_char :: "char \<Rightarrow> char" where
  "lower_char c =
     (let n = (of_char c :: nat) in if 65 \<le> n \<and> n \<le> 90 then char_of (n + 32) else c)"

definition toLowerCase :: "string \<Rightarrow> string" where
  "toLowerCase s = map lower_char s"

definition sensitiveHeaders :: "string list" where
  "sensitiveHeaders = [''authorization'', ''cookie'', ''x-api-key'', ''x-auth-token'']"

definition REDACTED :: string where
  "REDACTED = ''[REDACTED]''"

text \<open>
  The assignment \<open>obj[key] = value\<close>: an existing property keeps its place and takes
  the new value, a new property is added at the end.
\<close>

fun setProperty :: "headers \<Rightarrow> string \<Rightarrow> string \<Rightarrow> headers" where
  "setProperty [] key v = [(key, v)]"
| "setProperty ((k, w) # obj) key v =
     (if k = key then (k, v) # obj else (k, w) # setProperty obj key v)"

text \<open>The loop over \<open>Object.entries(headers)\<close>, with \<open>sanitized\<close> as the accumulator.\<close>

fun sanitizeLoop :: "headers \<Rightarrow> headers \<Rightarrow> headers" where
  "sanitizeLoop [] sanitized = sanitized"
| "sanitizeLoop ((key, v) # entries) sanitized =
     (if toLowerCase key \<in> set sensitiveHeaders
      then sanitizeLoop entries (setProperty sanitized key REDACTED)
      else sanitizeLoop entries (setProperty sanitized key v))"

definition sanitizeHeaders :: "headers \<Rightarrow> headers" where
  "sanitizeHeaders hs = sanitizeLoop hs []"

subsection \<open>Forwarding engine (\<open>EventForwarder\<close>, lines 264-335)\<close>

text \<open>\<open>new Date(t).toISOString()\<close>: the ISO-8601 text of the time value \<open>t\<close>.\<close>

datatype isotime = ISOString int

text \<open>
  The arguments of the call \<open>axios.post(endpoint, data, config)\<close> at lines 297-309:
  the data is the event with its timestamp serialised, the config carries the timeout
  and the five headers.
\<close>

datatype header_value = Text string | Time isotime

record 'b PostRequest =
  pr_url :: string
  pr_data :: "'b WebhookEvent"
  pr_data_timestamp :: isotime
  pr_timeout :: int
  pr_headers :: "(string \<times> header_value) list"

text \<open>
  What happens to one HTTP exchange: a response with a status code arrives, or the
  transport fails (connection refused, timeout, ...) with a message. The network is a
  parameter of the model: it maps a request and the time it is issued to the fate of
  the exchange and the time (\<open>Date.now()\<close>) at which the promise settles. Every
  awaited request settles; the \<open>timeout\<close> of the config is what bounds the wait.
\<close>

datatype http_outcome = HttpResponse nat | TransportError string

type_synonym 'b network = "'b PostRequest \<Rightarrow> int \<Rightarrow> http_outcome \<times> int"

text \<open>
  The world of the subscriber process: the clock read by \<open>Date.now()\<close> and
  \<open>new Date()\<close>, and the requests issued so far, oldest first, each with the time at
  which it was issued. Only an awaited request lets time pass: when the \<open>await\<close>
  returns, the clock is at the time the promise settled.
\<close>

record 'b world =
  clock :: int
  posted :: "('b PostRequest \<times> int) list"

text \<open>
  The library call \<open>axios.post\<close>. The call site sets only \<open>timeout\<close> and \<open>headers\<close>, so
  the library default \<open>validateStatus\<close> applies: the promise is fulfilled for a status
  from 200 to 299 and rejected with the message \<open>Request failed with status code N\<close>
  for any other status; a transport failure rejects with its own message.
\<close>

definition digit :: "nat \<Rightarrow> char" where
  "digit d = char_of (48 + d)"

fun decimal :: "nat \<Rightarrow> string" where
  "decimal n = (if n < 10 then [digit n] else decimal (n div 10) @ [digit (n mod 10)])"

declare decimal.simps [simp del]

definition validateStatus :: "nat \<Rightarrow> bool" where
  "validateStatus status = (200 \<le> status \<and> status < 300)"

datatype axios_result = Fulfilled nat | Rejected string

definition axios_post :: "'b network \<Rightarrow> 'b PostRequest \<Rightarrow> 'b world \<Rightarrow> axios_result \<times> 'b world" where
  "axios_post net request w =
     (let (outcome, settled) = net request (clock w);
          w' = w\<lparr>clock := settled, posted := posted w @ [(request, clock w)]\<rparr>
      in case outcome of
           HttpResponse status \<Rightarrow>
             if validateStatus status then (Fulfilled status, w')
             else (Rejected (''Request failed with status code '' @ decimal status), w')
         | TransportError msg \<Rightarrow> (Rejected msg, w'))"

text \<open>
  \<open>forwardToEndpoint\<close>: \<open>forwardRequest\<close> builds the arguments of the call, \<open>t\<close> being
  the value of \<open>new Date()\<close>; the rest of the \<open>try\<close> block is the \<open>Fulfilled\<close> branch, the
  \<open>catch\<close> block the \<open>Rejected\<close> branch. The parameter \<open>startTime\<close> is unused in the
  source as well.
\<close>

definition forwardRequest :: "int \<Rightarrow> 'b WebhookEvent \<Rightarrow> string \<Rightarrow> int \<Rightarrow> 'b PostRequest" where
  "forwardRequest timeout event endpoint t =
     \<lparr>pr_url = endpoint, pr_data = event,
      pr_data_timestamp = ISOString (ev_timestamp event),
      pr_timeout = timeout,
      pr_headers =
        [(''Content-Type'', Text ''application/json''),
         (''X-Anchr-Event-ID'', Text (ev_id event)),
         (''X-Anchr-Source'', Text (ev_source event)),
         (''X-Anchr-Endpoint'', Text (ev_endpoint event)),
         (''X-Anchr-Forwarded-At'', Time (ISOString t))]\<rparr>"

definition forwardToEndpoint ::
  "'b network \<Rightarrow> int \<Rightarrow> 'b WebhookEvent \<Rightarrow> string \<Rightarrow> int \<Rightarrow> 'b world \<Rightarrow> ForwardResult \<times> 'b world" where
  "forwardToEndpoint net timeout event endpoint startTime w =
     (let forwardStartTime = clock w;
          request = forwardRequest timeout event endpoint (clock w);
          (response, w') = axios_post net request w;
          responseTime = clock w' - forwardStartTime
      in case response of
           Fulfilled status \<Rightarrow>
             (\<lparr>fr_success = True, fr_endpoint = endpoint, fr_statusCode = Some status,
               fr_error = None, fr_responseTime = Some responseTime\<rparr>, w')
         | Rejected errorMessage \<Rightarrow>
             (\<lparr>fr_success = False, fr_endpoint = endpoint, fr_statusCode = None,
               fr_error = Some errorMessage, fr_responseTime = Some responseTime\<rparr>, w'))"

text \<open>
  The \<open>for ... of\<close> loop of \<open>forwardEvent\<close>: each iteration awaits one
  \<open>forwardToEndpoint\<close> and pushes its result.
\<close>

fun forwardLoop ::
  "'b network \<Rightarrow> int \<Rightarrow> 'b WebhookEvent \<Rightarrow> int \<Rightarrow> string list \<Rightarrow> ForwardResult list \<Rightarrow> 'b world
     \<Rightarrow> ForwardResult list \<times> 'b world" where
  "forwardLoop net timeout event startTime [] results w = (results, w)"
| "forwardLoop net timeout event startTime (endpoint # rest) results w =
     (let (result, w') = forwardToEndpoint net timeout event endpoint startTime w
      in forwardLoop net timeout event startTime rest (results @ [result]) w')"

record EventForwarder =
  fw_endpoints :: "string list"
  fw_timeout :: int

definition forwardEvent ::
  "'b network \<Rightarrow> EventForwarder \<Rightarrow> 'b WebhookEvent \<Rightarrow> 'b world \<Rightarrow> ForwardResult list \<times> 'b world" where
  "forwardEvent net fw event w =
     (let startTime = clock w
      in forwardLoop net (fw_timeout fw) event startTime (fw_endpoints fw) [] w)"

text \<open>
  \<open>AnchrCLI.handleEvent\<close> (lines 153-179): an event that fails the filter is
  dropped; an accepted one is forwarded when a forwarder with at least one target
  exists. Console output is left out.
\<close>

datatype handled = Dropped | Processed "ForwardResult list"

definition handleEvent ::
  "'b network \<Rightarrow> EventForwarder option \<Rightarrow> 'b WebhookEvent \<Rightarrow> string list option \<Rightarrow> 'b world
     \<Rightarrow> handled \<times> 'b world" where
  "handleEvent net forwarder event subscribeEndpoints w =
     (if \<not> passesFilter event subscribeEndpoints then (Dropped, w)
      else case forwarder of
             None \<Rightarrow> (Processed [], w)
           | Some fw \<Rightarrow>
               if length (fw_endpoints fw) > 0
               then (let (results, w') = forwardEvent net fw event w in (Processed results, w'))
               else (Processed [], w))"

subsection \<open>Ingestion gateway (\<open>createWebhookEvent\<close>, \<open>WebhookReceiver\<close>)\<close>

text \<open>
  The part of the Express request the handler reads. \<open>rq_headers\<close> is \<open>req.headers\<close>,
  whose names Node delivers in lower case; \<open>rq_ip\<close> is \<open>req.ip\<close>, undefined once the
  socket is gone; \<open>rq_body\<close> is \<open>req.body\<close>, undefined when no body parser filled it.
\<close>

record 'b Request =
  rq_headers :: headers
  rq_ip :: "string option"
  rq_path :: string
  rq_method :: string
  rq_body :: "'b option"

text \<open>The own property \<open>obj[key]\<close>, \<open>undefined\<close> when absent.\<close>

definition getProperty :: "headers \<Rightarrow> string \<Rightarrow> string option" where
  "getProperty obj key = map_of obj key"

text \<open>
  Express's \<open>req.get(name)\<close>, the branch taken for every name but \<open>Referer\<close>:
  \<open>this.headers[name.toLowerCase()]\<close>.
\<close>

definition req_get :: "'b Request \<Rightarrow> string \<Rightarrow> string option" where
  "req_get req name = getProperty (rq_headers req) (toLowerCase name)"

text \<open>
  \<open>a || b\<close> on values of type \<open>string | undefined\<close>: \<open>a\<close> when it is truthy, that is
  defined and not the empty string, otherwise \<open>b\<close>.
\<close>

definition js_or :: "string option \<Rightarrow> string option \<Rightarrow> string option" where
  "js_or a b = (case a of None \<Rightarrow> b | Some s \<Rightarrow> if s = [] then b else Some s)"

definition resolveSource :: "'b Request \<Rightarrow> string" where
  "resolveSource req =
     (case js_or (js_or (req_get req ''X-Forwarded-For'') (rq_ip req)) (Some ''unknown'') of
        Some s \<Rightarrow> s
      | None \<Rightarrow> ''unknown'')"

text \<open>What the process supplies to one call: the result of \<open>uuidv4()\<close> and of \<open>new Date()\<close>.\<close>

record fresh =
  uuid :: string
  now :: int

definition createWebhookEvent ::
  "fresh \<Rightarrow> string \<Rightarrow> string \<Rightarrow> headers \<Rightarrow> 'b option \<Rightarrow> string \<Rightarrow> string \<Rightarrow> string option
     \<Rightarrow> 'b WebhookEvent" where
  "createWebhookEvent g source endpoint hs body method ip userAgent =
     \<lparr>ev_id = uuid g, ev_timestamp = now g, ev_source = source, ev_endpoint = endpoint,
      ev_headers = hs, ev_body = body, ev_method = method, ev_ip = ip,
      ev_userAgent = userAgent\<rparr>"

text \<open>
  The bodies written by \<open>res.status(code).json(...)\<close>: the acknowledgment
  \<open>{success: true, eventId, timestamp}\<close> and the failure \<open>{success: false, error}\<close>.
\<close>

datatype response_body = Ack bool string isotime | Failure bool string

text \<open>
  What \<open>handleWebhook\<close> does to the outside, in program order: the log lines, the
  call that writes the response, the call of the registered callback, and an
  exception that leaves the handler.
\<close>

datatype 'b gateway_effect =
    LogReceived string
  | Respond nat response_body
  | Callback "'b WebhookEvent"
  | LogError
  | Uncaught

text \<open>
  The receiver holds the optional callback. A callback returns \<open>None\<close> when it
  returns normally and \<open>Some msg\<close> when it throws.
\<close>

record 'b WebhookReceiver =
  eventCallback :: "('b WebhookEvent \<Rightarrow> string option) option"

text \<open>
  \<open>handleWebhook\<close> (lines 133-179). Inside the \<open>try\<close> block the one statement that can
  throw before the response is the log line: \<open>JSON.stringify(body)\<close> is \<open>undefined\<close> for
  an undefined body and reading \<open>.length\<close> of it is a \<open>TypeError\<close>. The \<open>catch\<close> block
  logs and answers 500. An exception thrown by the callback reaches the same \<open>catch\<close>
  block after the acknowledgment has been written: the block logs, and its
  \<open>res.status(500).json(...)\<close> cannot write a second response but throws, out of the
  handler.
\<close>

definition catchBlock :: "'b gateway_effect list" where
  "catchBlock = [LogError, Respond 500 (Failure False ''Internal server error'')]"

definition buildEvent :: "'b Request \<Rightarrow> fresh \<Rightarrow> 'b WebhookEvent" where
  "buildEvent req g =
     (let source = resolveSource req;
          userAgent = req_get req ''User-Agent'';
          endpoint = rq_path req;
          method = rq_method req;
          hs = sanitizeHeaders (rq_headers req);
          body = rq_body req
      in createWebhookEvent g source endpoint hs body method source userAgent)"

definition handleWebhook :: "'b WebhookReceiver \<Rightarrow> 'b Request \<Rightarrow> fresh \<Rightarrow> 'b gateway_effect list" where
  "handleWebhook rcv req g =
     (let event = buildEvent req g
      in case rq_body req of
           None \<Rightarrow> catchBlock
         | Some b \<Rightarrow>
             [LogReceived (ev_id event),
              Respond 200 (Ack True (ev_id event) (ISOString (ev_timestamp event)))] @
             (case eventCallback rcv of
                None \<Rightarrow> []
              | Some callback \<Rightarrow>
                  Callback event #
                  (case callback event of None \<Rightarrow> [] | Some msg \<Rightarrow> [LogError, Uncaught])))"

subsection \<open>Broadcast hub (\<open>WebSocketServer\<close>)\<close>

record ServerStats =
  totalEvents :: int
  activeConnections :: int
  uptime :: int
  lastEvent :: "int option"

datatype 'b message =
    WebhookMsg "'b WebhookEvent"
  | StatsMsg ServerStats
  | PongMsg isotime

text \<open>
  The hub: its \<open>stats\<close> and \<open>startTime\<close> fields, the sockets socket.io holds as
  connected (by id), and every message emitted so far with the socket it went to,
  oldest first. \<open>io.emit\<close> sends one message to each connected socket.
\<close>

record 'b WebSocketServer =
  stats :: ServerStats
  startTime :: int
  sockets :: "string list"
  emitted :: "(string \<times> 'b message) list"

definition io_emit :: "'b message \<Rightarrow> 'b WebSocketServer \<Rightarrow> 'b WebSocketServer" where
  "io_emit m hub = hub\<lparr>emitted := emitted hub @ map (\<lambda>socket. (socket, m)) (sockets hub)\<rparr>"

definition newWebSocketServer :: "int \<Rightarrow> 'b WebSocketServer" where
  "newWebSocketServer t =
     \<lparr>stats = \<lparr>totalEvents = 0, activeConnections = 0, uptime = 0, lastEvent = None\<rparr>,
      startTime = t, sockets = [], emitted = []\<rparr>"

definition getStats :: "int \<Rightarrow> 'b WebSocketServer \<Rightarrow> ServerStats" where
  "getStats t hub = (stats hub)\<lparr>uptime := t - startTime hub\<rparr>"

definition onConnection :: "int \<Rightarrow> string \<Rightarrow> 'b WebSocketServer \<Rightarrow> 'b WebSocketServer" where
  "onConnection t socket hub =
     (let hub1 = hub\<lparr>stats := (stats hub)\<lparr>activeConnections := activeConnections (stats hub) + 1\<rparr>,
                     sockets := sockets hub @ [socket]\<rparr>
      in hub1\<lparr>emitted := emitted hub1 @ [(socket, StatsMsg (getStats t hub1))]\<rparr>)"

definition onDisconnect :: "string \<Rightarrow> 'b WebSocketServer \<Rightarrow> 'b WebSocketServer" where
  "onDisconnect socket hub =
     hub\<lparr>stats := (stats hub)\<lparr>activeConnections := activeConnections (stats hub) - 1\<rparr>,
         sockets := remove1 socket (sockets hub)\<rparr>"

definition onPing :: "int \<Rightarrow> string \<Rightarrow> 'b WebSocketServer \<Rightarrow> 'b WebSocketServer" where
  "onPing t socket hub = hub\<lparr>emitted := emitted hub @ [(socket, PongMsg (ISOString t))]\<rparr>"

definition broadcastEvent :: "'b WebhookEvent \<Rightarrow> 'b WebSocketServer \<Rightarrow> 'b WebSocketServer" where
  "broadcastEvent event hub =
     (let hub1 = hub\<lparr>stats := (stats hub)\<lparr>totalEvents := totalEvents (stats hub) + 1\<rparr>\<rparr>;
          hub2 = hub1\<lparr>stats := (stats hub1)\<lparr>lastEvent := Some (ev_timestamp event)\<rparr>\<rparr>
      in io_emit (WebhookMsg event) hub2)"

subsection \<open>Subscriber session (\<open>WebSocketClient\<close>)\<close>

record ConnectionStatus =
  connected :: bool
  lastConnected :: "int option"
  reconnectAttempts :: int
  error :: "string option"

text \<open>
  The client: its \<open>status\<close>, its private counter \<open>reconnectAttempts\<close>, whether a socket
  exists and whether the two callbacks are registered.
\<close>

record WebSocketClient =
  status :: ConnectionStatus
  cl_reconnectAttempts :: int
  has_socket :: bool
  has_eventCallback :: bool
  has_statusCallback :: bool

text \<open>The events the socket delivers to the handlers registered in \<open>connect()\<close>.\<close>

datatype 'b socket_event =
    OnConnect
  | OnDisconnect string
  | OnConnectError string
  | OnReconnect int
  | OnReconnectAttempt int
  | OnReconnectFailed
  | OnWebhook "'b WebhookEvent"
  | OnStats
  | OnPong

text \<open>
  What a handler does to the outside: a call of the status callback with a copy of
  the status, a call of the event callback, settling the promise of \<open>connect()\<close>.
\<close>

datatype 'b client_effect =
    StatusCallback ConnectionStatus
  | EventCallback "'b WebhookEvent"
  | Resolve
  | Reject string

definition newWebSocketClient :: WebSocketClient where
  "newWebSocketClient =
     \<lparr>status = \<lparr>connected = False, lastConnected = None, reconnectAttempts = 0, error = None\<rparr>,
      cl_reconnectAttempts = 0, has_socket = False, has_eventCallback = False,
      has_statusCallback = False\<rparr>"

definition updateStatus :: "WebSocketClient \<Rightarrow> 'b client_effect list" where
  "updateStatus c = (if has_statusCallback c then [StatusCallback (status c)] else [])"

text \<open>The handlers of lines 202-268; \<open>t\<close> is the value of \<open>new Date()\<close> at the event.\<close>

fun handler :: "int \<Rightarrow> 'b socket_event \<Rightarrow> WebSocketClient \<Rightarrow> WebSocketClient \<times> 'b client_effect list" where
  "handler t OnConnect c =
     (let c' = c\<lparr>status := (status c)\<lparr>connected := True, lastConnected := Some t,
                                        reconnectAttempts := 0, error := None\<rparr>\<rparr>
      in (c', updateStatus c' @ [Resolve]))"
| "handler t (OnDisconnect reason) c =
     (let c' = c\<lparr>status := (status c)\<lparr>connected := False, error := Some reason\<rparr>\<rparr>
      in (c', updateStatus c'))"
| "handler t (OnConnectError msg) c =
     (let c' = c\<lparr>status := (status c)\<lparr>connected := False, error := Some msg\<rparr>,
                 cl_reconnectAttempts := cl_reconnectAttempts c + 1\<rparr>
      in (c', updateStatus c' @ [Reject msg]))"
| "handler t (OnReconnect attemptNumber) c =
     (let c' = c\<lparr>status := (status c)\<lparr>connected := True, lastConnected := Some t,
                                        reconnectAttempts := attemptNumber, error := None\<rparr>\<rparr>
      in (c', updateStatus c'))"
| "handler t (OnReconnectAttempt attemptNumber) c =
     (let c' = c\<lparr>status := (status c)\<lparr>reconnectAttempts := attemptNumber\<rparr>\<rparr>
      in (c', updateStatus c'))"
| "handler t OnReconnectFailed c =
     (let c' = c\<lparr>status := (status c)\<lparr>connected := False,
                                        error := Some ''Max reconnection attempts reached''\<rparr>\<rparr>
      in (c', updateStatus c'))"
| "handler t (OnWebhook event) c =
     (c, if has_eventCallback c then [EventCallback event] else [])"
| "handler t OnStats c = (c, [])"
| "handler t OnPong c = (c, [])"

text \<open>
  What happens to the connection, and what the \<open>Socket\<close> emits for it. The session gets
  its socket from the named export \<open>io\<close> of \<open>socket.io-client\<close>, which the library has
  from version 3 on. From that version the \<open>Socket\<close> emits \<open>connect\<close> (on the first
  connection and on every reconnection), \<open>disconnect\<close>, \<open>connect_error\<close> (on every
  failed attempt) and the events the server sends; \<open>reconnect\<close>, \<open>reconnect_attempt\<close>
  and \<open>reconnect_failed\<close> are emitted by the \<open>Manager\<close> (\<open>socket.io\<close>), on which the
  session registers no listener, so the listeners of lines 231-253 are never called.
\<close>

datatype 'b transport_event =
    Established
  | Reestablished int
  | Lost string
  | AttemptStarted int
  | AttemptFailed string
  | AttemptsExhausted
  | Received "'b message"

fun socket_emits :: "'b transport_event \<Rightarrow> 'b socket_event list" where
  "socket_emits Established = [OnConnect]"
| "socket_emits (Reestablished attemptNumber) = [OnConnect]"
| "socket_emits (Lost reason) = [OnDisconnect reason]"
| "socket_emits (AttemptStarted attemptNumber) = []"
| "socket_emits (AttemptFailed msg) = [OnConnectError msg]"
| "socket_emits AttemptsExhausted = []"
| "socket_emits (Received (WebhookMsg event)) = [OnWebhook event]"
| "socket_emits (Received (StatsMsg s)) = [OnStats]"
| "socket_emits (Received (PongMsg t)) = [OnPong]"

text \<open>The listeners run on the emitted events in order; \<open>t\<close> is the time of the event.\<close>

fun deliver ::
  "int \<Rightarrow> 'b socket_event list \<Rightarrow> WebSocketClient \<Rightarrow> WebSocketClient \<times> 'b client_effect list" where
  "deliver t [] c = (c, [])"
| "deliver t (e # es) c =
     (let (c1, effects1) = handler t e c;
          (c2, effects2) = deliver t es c1
      in (c2, effects1 @ effects2))"

definition onTransport ::
  "int \<Rightarrow> 'b transport_event \<Rightarrow> WebSocketClient \<Rightarrow> WebSocketClient \<times> 'b client_effect list" where
  "onTransport t h c = deliver t (socket_emits h) c"

text \<open>The life of a session: the timed events of its connection, oldest first.\<close>

fun session ::
  "(int \<times> 'b transport_event) list \<Rightarrow> WebSocketClient \<Rightarrow> WebSocketClient \<times> 'b client_effect list" where
  "session [] c = (c, [])"
| "session ((t, h) # rest) c =
     (let (c1, effects1) = onTransport t h c;
          (c2, effects2) = session rest c1
      in (c2, effects1 @ effects2))"

subsection \<open>Sample inputs\<close>

text \<open>Concrete values on which the statements below are evaluated.\<close>

definition sample_event :: "string WebhookEvent" where
  "sample_event =
     \<lparr>ev_id = ''7c9e6679-7425-40de-944b-e07fc1f90ae7'', ev_timestamp = 1700000000000,
      ev_source = ''198.51.100.4'', ev_endpoint = ''/github'',
      ev_headers = [(''content-type'', ''application/json'')], ev_body = Some ''{}'',
      ev_method = ''POST'', ev_ip = ''198.51.100.4'', ev_userAgent = None\<rparr>"

definition sample_world :: "string world" where
  "sample_world = \<lparr>clock = 1700000000500, posted = []\<rparr>"

definition sample_forwarder :: EventForwarder where
  "sample_forwarder =
     \<lparr>fw_endpoints = [''http://localhost:4000/a'', ''http://localhost:4001/b''],
      fw_timeout = 5000\<rparr>"

text \<open>Target \<open>a\<close> never answers within the timeout, every other target answers 200.\<close>

definition sample_network :: "string network" where
  "sample_network request t =
     (if pr_url request = ''http://localhost:4000/a''
      then (TransportError ''timeout of 5000ms exceeded'', t + 5000)
      else (HttpResponse 200, t + 12))"

text \<open>Every target answers 404.\<close>

definition not_found_network :: "string network" where
  "not_found_network request t = (HttpResponse 404, t + 12)"

definition sample_headers :: headers where
  "sample_headers =
     [(''Authorization'', ''Bearer abc''), (''content-type'', ''application/json''),
      (''X-API-Key'', ''k-123'')]"

definition sample_request :: "string Request" where
  "sample_request =
     \<lparr>rq_headers =
        [(''x-forwarded-for'', ''198.51.100.4''), (''authorization'', ''Bearer abc''),
         (''content-type'', ''application/json'')],
      rq_ip = Some ''10.0.0.1'', rq_path = ''/github'', rq_method = ''POST'',
      rq_body = Some ''{}''\<rparr>"

text \<open>A request whose \<open>X-Forwarded-For\<close> header is present with an empty value.\<close>

definition empty_forwarded_request :: "string Request" where
  "empty_forwarded_request = sample_request\<lparr>rq_headers := [(''x-forwarded-for'', [])]\<rparr>"

text \<open>A request on which no body parser ran.\<close>

definition no_body_request :: "string Request" where
  "no_body_request = sample_request\<lparr>rq_body := None\<rparr>"

definition sample_fresh :: fresh where
  "sample_fresh = \<lparr>uuid = ''7c9e6679-7425-40de-944b-e07fc1f90ae7'', now = 1700000000000\<rparr>"

definition sample_receiver :: "string WebhookReceiver" where
  "sample_receiver = \<lparr>eventCallback = Some (\<lambda>event. None)\<rparr>"

definition sample_hub :: "string WebSocketServer" where
  "sample_hub =
     \<lparr>stats = \<lparr>totalEvents = 41, activeConnections = 2, uptime = 9000, lastEvent = None\<rparr>,
      startTime = 1699999990000, sockets = [''s1'', ''s2''], emitted = []\<rparr>"

definition idle_hub :: "string WebSocketServer" where
  "idle_hub = newWebSocketServer 1699999990000"

text \<open>A session with both callbacks registered, before its first connection.\<close>

definition registered_client :: WebSocketClient where
  "registered_client =
     newWebSocketClient\<lparr>has_socket := True, has_eventCallback := True,
                        has_statusCallback := True\<rparr>"

text \<open>The session connects, loses the connection and fails one attempt to reconnect.\<close>

definition sample_history :: "(int \<times> string transport_event) list" where
  "sample_history =
     [(1700000000000, Established),
      (1700000004000, Lost ''transport close''),
      (1700000005000, AttemptStarted 1),
      (1700000005100, AttemptFailed ''xhr poll error''),
      (1700000006100, AttemptStarted 2)]"

section \<open>Properties\<close>

subsection \<open>Auxiliary facts\<close>

lemma lower_forwarded_for: "toLowerCase ''X-Forwarded-For'' = ''x-forwarded-for''"
  by code_simp

lemma lower_sample_names:
  "toLowerCase ''Authorization'' = ''authorization''"
  "toLowerCase ''content-type'' = ''content-type''"
  "toLowerCase ''X-API-Key'' = ''x-api-key''"
  by code_simp+

lemma decimal_404: "decimal 404 = ''404''"
  by code_simp

lemma sensitive_names:
  "n \<in> set sensitiveHeaders \<longleftrightarrow>
     n \<in> {''authorization'', ''cookie'', ''x-api-key'', ''x-auth-token''}"
  unfolding sensitiveHeaders_def by simp

lemma setProperty_fresh:
  "key \<notin> fst ` set obj \<Longrightarrow> setProperty obj key v = obj @ [(key, v)]"
  by (induction obj) auto

text \<open>
  On an object (each key once) the loop keeps the entries in place and replaces the
  values of the sensitive ones.
\<close>

lemma sanitizeLoop_distinct:
  "distinct (map fst hs) \<Longrightarrow> fst ` set hs \<inter> fst ` set acc = {} \<Longrightarrow>
   sanitizeLoop hs acc =
     acc @ map (\<lambda>(k, v). (k, if toLowerCase k \<in> set sensitiveHeaders then REDACTED else v)) hs"
proof (induction hs arbitrary: acc)
  case Nil
  then show ?case by simp
next
  case (Cons e hs)
  obtain k v where e: "e = (k, v)" by (cases e)
  let ?v = "if toLowerCase k \<in> set sensitiveHeaders then REDACTED else v"
  from Cons.prems e have fresh: "k \<notin> fst ` set acc" by auto
  have step: "sanitizeLoop (e # hs) acc = sanitizeLoop hs (acc @ [(k, ?v)])"
    using fresh by (simp add: e setProperty_fresh)
  have "fst ` set hs \<inter> fst ` set (acc @ [(k, ?v)]) = {}"
    using Cons.prems e by auto
  with Cons.IH [of "acc @ [(k, ?v)]"] Cons.prems
  have "sanitizeLoop hs (acc @ [(k, ?v)]) =
          (acc @ [(k, ?v)]) @
          map (\<lambda>(k, v). (k, if toLowerCase k \<in> set sensitiveHeaders then REDACTED else v)) hs"
    by simp
  with step show ?case by (simp add: e)
qed

lemma sanitizeHeaders_map:
  "distinct (map fst hs) \<Longrightarrow>
   sanitizeHeaders hs =
     map (\<lambda>(k, v). (k, if toLowerCase k \<in> set sensitiveHeaders then REDACTED else v)) hs"
  by (simp add: sanitizeHeaders_def sanitizeLoop_distinct)

lemma map_of_sanitized:
  "map_of (map (\<lambda>(k, v). (k, if toLowerCase k \<in> set sensitiveHeaders then REDACTED else v)) hs) k =
     map_option (\<lambda>v. if toLowerCase k \<in> set sensitiveHeaders then REDACTED else v) (map_of hs k)"
  by (induction hs) auto

lemma ev_id_buildEvent: "ev_id (buildEvent req g) = uuid g"
  by (simp add: buildEvent_def createWebhookEvent_def Let_def)

lemma ev_timestamp_buildEvent: "ev_timestamp (buildEvent req g) = now g"
  by (simp add: buildEvent_def createWebhookEvent_def Let_def)

lemma axios_post_posted:
  "posted (snd (axios_post net request w)) = posted w @ [(request, clock w)]"
  by (simp add: axios_post_def Let_def split: prod.split http_outcome.split)

lemma axios_post_clock:
  "clock (snd (axios_post net request w)) = snd (net request (clock w))"
  by (simp add: axios_post_def Let_def split: prod.split http_outcome.split)

lemma forwardToEndpoint_endpoint:
  "fr_endpoint (fst (forwardToEndpoint net timeout event endpoint start w)) = endpoint"
  by (simp add: forwardToEndpoint_def Let_def split: prod.split axios_result.split)

lemma forwardToEndpoint_world:
  "snd (forwardToEndpoint net timeout event endpoint start w) =
     snd (axios_post net (forwardRequest timeout event endpoint (clock w)) w)"
  by (simp add: forwardToEndpoint_def Let_def split: prod.split axios_result.split)

lemma forwardToEndpoint_posted:
  "posted (snd (forwardToEndpoint net timeout event endpoint start w)) =
     posted w @ [(forwardRequest timeout event endpoint (clock w), clock w)]"
  by (simp add: forwardToEndpoint_world axios_post_posted)

lemma forwardToEndpoint_clock:
  "clock (snd (forwardToEndpoint net timeout event endpoint start w)) =
     snd (net (forwardRequest timeout event endpoint (clock w)) (clock w))"
  by (simp add: forwardToEndpoint_world axios_post_clock)

text \<open>The result of an attempt depends on the world through its clock only.\<close>

lemma forwardToEndpoint_result_clock:
  "fst (forwardToEndpoint net timeout event endpoint start w) =
   fst (forwardToEndpoint net timeout event endpoint start \<lparr>clock = clock w, posted = []\<rparr>)"
proof -
  obtain outcome settled where
    n: "net (forwardRequest timeout event endpoint (clock w)) (clock w) = (outcome, settled)"
    by (cases "net (forwardRequest timeout event endpoint (clock w)) (clock w)")
  show ?thesis
    by (cases outcome) (simp_all add: forwardToEndpoint_def axios_post_def n Let_def)
qed

lemma forwardLoop_append:
  "forwardLoop net timeout event start (xs @ ys) acc w =
     forwardLoop net timeout event start ys
       (fst (forwardLoop net timeout event start xs acc w))
       (snd (forwardLoop net timeout event start xs acc w))"
  by (induction xs arbitrary: acc w) (simp_all add: Let_def split: prod.split)

lemma forwardLoop_acc:
  "forwardLoop net timeout event start eps acc w =
     (acc @ fst (forwardLoop net timeout event start eps [] w),
      snd (forwardLoop net timeout event start eps [] w))"
proof (induction eps arbitrary: acc w)
  case Nil
  then show ?case by simp
next
  case (Cons e eps)
  obtain r w' where step: "forwardToEndpoint net timeout event e start w = (r, w')"
    by (cases "forwardToEndpoint net timeout event e start w")
  show ?case
    using Cons.IH [of "acc @ [r]" w'] Cons.IH [of "[r]" w'] by (simp add: step)
qed

lemma forwardLoop_length:
  "length (fst (forwardLoop net timeout event start eps acc w)) = length acc + length eps"
proof (induction eps arbitrary: acc w)
  case Nil
  then show ?case by simp
next
  case (Cons e eps)
  obtain r w' where step: "forwardToEndpoint net timeout event e start w = (r, w')"
    by (cases "forwardToEndpoint net timeout event e start w")
  show ?case using Cons.IH [of "acc @ [r]" w'] by (simp add: step)
qed

lemma forwardLoop_endpoints:
  "map fr_endpoint (fst (forwardLoop net timeout event start eps acc w)) =
     map fr_endpoint acc @ eps"
proof (induction eps arbitrary: acc w)
  case Nil
  then show ?case by simp
next
  case (Cons e eps)
  obtain r w' where step: "forwardToEndpoint net timeout event e start w = (r, w')"
    by (cases "forwardToEndpoint net timeout event e start w")
  have "fr_endpoint r = e"
    using forwardToEndpoint_endpoint [of net timeout event e start w] by (simp add: step)
  then show ?case using Cons.IH [of "acc @ [r]" w'] by (simp add: step)
qed

text \<open>The loop only adds to the log, one entry per target.\<close>

lemma forwardLoop_log:
  "\<exists>ys. posted (snd (forwardLoop net timeout event start eps acc w)) = posted w @ ys \<and>
        length ys = length eps \<and> map (pr_url \<circ> fst) ys = eps"
proof (induction eps arbitrary: acc w)
  case Nil
  then show ?case by simp
next
  case (Cons e eps)
  obtain r w' where step: "forwardToEndpoint net timeout event e start w = (r, w')"
    by (cases "forwardToEndpoint net timeout event e start w")
  have p: "posted w' = posted w @ [(forwardRequest timeout event e (clock w), clock w)]"
    using forwardToEndpoint_posted [of net timeout event e start w] by (simp add: step)
  from Cons.IH [of "acc @ [r]" w'] obtain ys where
    ys: "posted (snd (forwardLoop net timeout event start eps (acc @ [r]) w')) = posted w' @ ys"
      "length ys = length eps" "map (pr_url \<circ> fst) ys = eps"
    by blast
  let ?ys = "(forwardRequest timeout event e (clock w), clock w) # ys"
  have a: "posted (snd (forwardLoop net timeout event start (e # eps) acc w)) = posted w @ ?ys"
    using ys(1) p by (simp add: step)
  have b: "length ?ys = length (e # eps)"
    using ys(2) by simp
  have c: "map (pr_url \<circ> fst) ?ys = e # eps"
    using ys(3) by (simp add: forwardRequest_def)
  from a b c have
    "posted (snd (forwardLoop net timeout event start (e # eps) acc w)) = posted w @ ?ys \<and>
     length ?ys = length (e # eps) \<and> map (pr_url \<circ> fst) ?ys = e # eps"
    by (intro conjI)
  then show ?case by (rule exI [where x = ?ys])
qed

lemma forwardLoop_posted_length:
  "length (posted (snd (forwardLoop net timeout event start eps acc w))) =
     length (posted w) + length eps"
  using forwardLoop_log [of net timeout event start eps acc w] by auto

lemma forwardLoop_posted_urls:
  "map (pr_url \<circ> fst) (posted (snd (forwardLoop net timeout event start eps acc w))) =
     map (pr_url \<circ> fst) (posted w) @ eps"
  using forwardLoop_log [of net timeout event start eps acc w] by auto

text \<open>The world after the first \<open>i + 1\<close> targets is one attempt away from the world after the first \<open>i\<close>.\<close>

lemma forwardLoop_take_Suc:
  assumes "i < length eps"
  shows "snd (forwardLoop net timeout event start (take (Suc i) eps) [] w) =
           snd (forwardToEndpoint net timeout event (eps ! i) start
                  (snd (forwardLoop net timeout event start (take i eps) [] w)))"
proof -
  have "take (Suc i) eps = take i eps @ [eps ! i]"
    using assms by (simp add: take_Suc_conv_app_nth)
  then show ?thesis
    by (simp add: forwardLoop_append Let_def split: prod.split)
qed

text \<open>What the first \<open>i\<close> targets have logged stays as the front of the final log.\<close>

lemma forwardLoop_log_prefix:
  assumes "i \<le> length eps"
  shows "take (length (posted w) + i) (posted (snd (forwardLoop net timeout event start eps [] w))) =
           posted (snd (forwardLoop net timeout event start (take i eps) [] w))"
proof -
  let ?pre = "forwardLoop net timeout event start (take i eps) [] w"
  have "forwardLoop net timeout event start eps [] w =
          forwardLoop net timeout event start (drop i eps) (fst ?pre) (snd ?pre)"
    using forwardLoop_append [of net timeout event start "take i eps" "drop i eps" "[]" w]
    by simp
  moreover obtain ys where
    "posted (snd (forwardLoop net timeout event start (drop i eps) (fst ?pre) (snd ?pre))) =
       posted (snd ?pre) @ ys"
    using forwardLoop_log [of net timeout event start "drop i eps" "fst ?pre" "snd ?pre"]
    by blast
  moreover have "length (posted (snd ?pre)) = length (posted w) + i"
    using assms by (simp add: forwardLoop_posted_length)
  ultimately show ?thesis by simp
qed

lemma forwardLoop_log_nth:
  assumes "i < length eps"
  shows "posted (snd (forwardLoop net timeout event start eps [] w)) ! (length (posted w) + i) =
           (forwardRequest timeout event (eps ! i)
              (clock (snd (forwardLoop net timeout event start (take i eps) [] w))),
            clock (snd (forwardLoop net timeout event start (take i eps) [] w)))"
proof -
  let ?final = "posted (snd (forwardLoop net timeout event start eps [] w))"
  let ?wi = "snd (forwardLoop net timeout event start (take i eps) [] w)"
  have "take (length (posted w) + Suc i) ?final =
          posted (snd (forwardLoop net timeout event start (take (Suc i) eps) [] w))"
    using assms forwardLoop_log_prefix [of "Suc i" eps w net timeout event start] by simp
  also have "\<dots> = posted ?wi @ [(forwardRequest timeout event (eps ! i) (clock ?wi), clock ?wi)]"
    using assms by (simp add: forwardLoop_take_Suc forwardToEndpoint_posted)
  finally have front: "take (length (posted w) + Suc i) ?final =
      posted ?wi @ [(forwardRequest timeout event (eps ! i) (clock ?wi), clock ?wi)]" .
  have len: "length (posted ?wi) = length (posted w) + i"
    using assms by (simp add: forwardLoop_posted_length)
  have "?final ! (length (posted w) + i) =
          take (length (posted w) + Suc i) ?final ! (length (posted w) + i)"
    by simp
  also have "\<dots> = (forwardRequest timeout event (eps ! i) (clock ?wi), clock ?wi)"
    unfolding front using len by (simp add: nth_append)
  finally show ?thesis .
qed

lemma forwardLoop_clock_Suc:
  assumes "i < length eps"
  shows "clock (snd (forwardLoop net timeout event start (take (Suc i) eps) [] w)) =
           snd (net (forwardRequest timeout event (eps ! i)
                       (clock (snd (forwardLoop net timeout event start (take i eps) [] w))))
                    (clock (snd (forwardLoop net timeout event start (take i eps) [] w))))"
  using assms by (simp add: forwardLoop_take_Suc forwardToEndpoint_clock)

lemma forwardLoop_nth:
  assumes "i < length eps"
  shows "fst (forwardLoop net timeout event start eps [] w) ! i =
           fst (forwardToEndpoint net timeout event (eps ! i) start
                  (snd (forwardLoop net timeout event start (take i eps) [] w)))"
proof -
  let ?pre = "forwardLoop net timeout event start (take i eps) [] w"
  obtain r w' where step: "forwardToEndpoint net timeout event (eps ! i) start (snd ?pre) = (r, w')"
    by (cases "forwardToEndpoint net timeout event (eps ! i) start (snd ?pre)")
  have split: "eps = take i eps @ (eps ! i) # drop (Suc i) eps"
    using assms by (simp add: id_take_nth_drop)
  have "forwardLoop net timeout event start eps [] w =
          forwardLoop net timeout event start ((eps ! i) # drop (Suc i) eps) (fst ?pre) (snd ?pre)"
    using forwardLoop_append [of net timeout event start "take i eps"
        "(eps ! i) # drop (Suc i) eps" "[]" w] split
    by simp
  also have "\<dots> = forwardLoop net timeout event start (drop (Suc i) eps) (fst ?pre @ [r]) w'"
    by (simp add: step)
  also have "\<dots> =
      ((fst ?pre @ [r]) @ fst (forwardLoop net timeout event start (drop (Suc i) eps) [] w'),
       snd (forwardLoop net timeout event start (drop (Suc i) eps) [] w'))"
    by (rule forwardLoop_acc)
  finally have res: "fst (forwardLoop net timeout event start eps [] w) =
      fst ?pre @ r # fst (forwardLoop net timeout event start (drop (Suc i) eps) [] w')"
    by simp
  have "length (fst ?pre) = i"
    using assms forwardLoop_length [of net timeout event start "take i eps" "[]" w] by simp
  with res have "fst (forwardLoop net timeout event start eps [] w) ! i = r"
    by (simp add: nth_append)
  with step show ?thesis by simp
qed

text \<open>The listeners never change which callbacks are registered.\<close>

lemma handler_keeps_statusCallback:
  "has_statusCallback (fst (handler t e c)) = has_statusCallback c"
  by (cases e) (simp_all add: Let_def)

lemma deliver_keeps_statusCallback:
  "has_statusCallback (fst (deliver t es c)) = has_statusCallback c"
proof (induction es arbitrary: c)
  case Nil
  then show ?case by simp
next
  case (Cons e es)
  obtain c1 fx1 where h: "handler t e c = (c1, fx1)" by (cases "handler t e c")
  obtain c2 fx2 where d: "deliver t es c1 = (c2, fx2)" by (cases "deliver t es c1")
  show ?case
    using Cons.IH [of c1] handler_keeps_statusCallback [of t e c] by (simp add: h d)
qed

lemma session_keeps_statusCallback:
  "has_statusCallback (fst (session history c)) = has_statusCallback c"
proof (induction history arbitrary: c)
  case Nil
  then show ?case by simp
next
  case (Cons x history)
  obtain t h where x: "x = (t, h)" by (cases x)
  obtain c1 fx1 where o: "onTransport t h c = (c1, fx1)" by (cases "onTransport t h c")
  obtain c2 fx2 where r: "session history c1 = (c2, fx2)" by (cases "session history c1")
  have "has_statusCallback c1 = has_statusCallback c"
    using deliver_keeps_statusCallback [of t "socket_emits h" c] o by (simp add: onTransport_def)
  then show ?case
    using Cons.IH [of c1] by (simp add: x o r)
qed

lemma session_append:
  "session (xs @ ys) c =
     (fst (session ys (fst (session xs c))),
      snd (session xs c) @ snd (session ys (fst (session xs c))))"
proof (induction xs arbitrary: c)
  case Nil
  then show ?case by simp
next
  case (Cons x xs)
  obtain t h where x: "x = (t, h)" by (cases x)
  obtain c1 fx1 where o: "onTransport t h c = (c1, fx1)" by (cases "onTransport t h c")
  obtain c2 fx2 where r: "session xs c1 = (c2, fx2)" by (cases "session xs c1")
  show ?case
    using Cons.IH [of c1] by (simp add: x o r)
qed

lemma onTransport_connect:
  "h = Established \<or> h = Reestablished n \<Longrightarrow>
   onTransport t h c =
     (c\<lparr>status := \<lparr>connected = True, lastConnected = Some t, reconnectAttempts = 0,
                    error = None\<rparr>\<rparr>,
      (if has_statusCallback c
       then [StatusCallback \<lparr>connected = True, lastConnected = Some t, reconnectAttempts = 0,
                             error = None\<rparr>]
       else []) @ [Resolve])"
  by (auto simp add: onTransport_def updateStatus_def Let_def)

subsection \<open>C1: endpoint filter\<close>

text \<open>
  Claim C1. The endpoint filter of \<open>handleEvent\<close> accepts every event when the list
  of prefixes is undefined or empty. For a non-empty list an event is accepted if and
  only if its endpoint equals some configured prefix or starts with one. For the
  prefixes \<open>/github\<close> and \<open>/stripe\<close>, the endpoints \<open>/github\<close> and \<open>/stripe/extra\<close> are
  accepted, \<open>/other\<close> and \<open>/api/users\<close> are rejected. \<open>handleEvent\<close> drops an event
  exactly when the filter rejects it.
\<close>

theorem endpoint_filter_accepts_iff_prefix:
  "passesFilter event None \<and>
   passesFilter event (Some []) \<and>
   (eps \<noteq> [] \<longrightarrow>
      passesFilter event (Some eps) =
        (\<exists>p \<in> set eps. ev_endpoint event = p \<or> prefix p (ev_endpoint event))) \<and>
   passesFilter (event\<lparr>ev_endpoint := ''/github''\<rparr>) (Some [''/github'', ''/stripe'']) \<and>
   passesFilter (event\<lparr>ev_endpoint := ''/stripe/extra''\<rparr>) (Some [''/github'', ''/stripe'']) \<and>
   \<not> passesFilter (event\<lparr>ev_endpoint := ''/other''\<rparr>) (Some [''/github'', ''/stripe'']) \<and>
   \<not> passesFilter (event\<lparr>ev_endpoint := ''/api/users''\<rparr>) (Some [''/github'', ''/stripe'']) \<and>
   (fst (handleEvent net forwarder event subscribeEndpoints w) = Dropped) =
     (\<not> passesFilter event subscribeEndpoints)"
proof -
  have general: "eps \<noteq> [] \<longrightarrow>
      passesFilter event (Some eps) =
        (\<exists>p \<in> set eps. ev_endpoint event = p \<or> prefix p (ev_endpoint event))"
    by (cases eps) (auto simp add: passesFilter_def shouldProcess_def list_ex_iff)
  have dropped: "(fst (handleEvent net forwarder event subscribeEndpoints w) = Dropped) =
     (\<not> passesFilter event subscribeEndpoints)"
    by (simp add: handleEvent_def split: option.split prod.split)
  from general dropped show ?thesis
    by (simp add: passesFilter_def shouldProcess_def)
qed

theorem endpoint_filter_accepts_iff_prefix_witness:
  "[''/git''] \<noteq> [] \<and> passesFilter sample_event (Some [''/git'']) \<and>
   [''/github/''] \<noteq> [] \<and> \<not> passesFilter sample_event (Some [''/github/''])"
  using endpoint_filter_accepts_iff_prefix [of sample_event "[''/git'']"]
    endpoint_filter_accepts_iff_prefix [of sample_event "[''/github/'']"]
  by (simp add: sample_event_def)

subsection \<open>C2: header sanitization\<close>

text \<open>
  Claim C2. For every header object, \<open>sanitizeHeaders\<close> gives every header whose
  lowercased name is \<open>authorization\<close>, \<open>cookie\<close>, \<open>x-api-key\<close> or \<open>x-auth-token\<close> the value
  \<open>[REDACTED]\<close> and every other header its original value; the header names, and
  their order, are unchanged. The event built by the gateway carries the sanitized
  headers of the request.
\<close>

theorem sanitizeHeaders_redacts_sensitive:
  assumes "distinct (map fst hs)"
  shows "getProperty (sanitizeHeaders hs) k =
           (case getProperty hs k of
              None \<Rightarrow> None
            | Some v \<Rightarrow>
                if toLowerCase k \<in> {''authorization'', ''cookie'', ''x-api-key'', ''x-auth-token''}
                then Some ''[REDACTED]'' else Some v) \<and>
         map fst (sanitizeHeaders hs) = map fst hs \<and>
         ev_headers (buildEvent req g) = sanitizeHeaders (rq_headers req)"
proof -
  have lookup: "getProperty (sanitizeHeaders hs) k =
           (case getProperty hs k of
              None \<Rightarrow> None
            | Some v \<Rightarrow>
                if toLowerCase k \<in> {''authorization'', ''cookie'', ''x-api-key'', ''x-auth-token''}
                then Some ''[REDACTED]'' else Some v)"
    unfolding getProperty_def sanitizeHeaders_map [OF assms] map_of_sanitized
    by (cases "map_of hs k")
       (simp_all only: sensitive_names REDACTED_def option.map option.case if_distrib [of Some])
  have names: "map fst (sanitizeHeaders hs) = map fst hs"
    using assms by (simp add: sanitizeHeaders_map comp_def case_prod_beta)
  have built: "ev_headers (buildEvent req g) = sanitizeHeaders (rq_headers req)"
    by (simp add: buildEvent_def createWebhookEvent_def Let_def)
  from lookup names built show ?thesis by blast
qed

theorem sanitizeHeaders_redacts_sensitive_witness:
  "distinct (map fst sample_headers) \<and>
   getProperty (sanitizeHeaders sample_headers) ''Authorization'' = Some ''[REDACTED]'' \<and>
   getProperty (sanitizeHeaders sample_headers) ''content-type'' = Some ''application/json'' \<and>
   getProperty (sanitizeHeaders sample_headers) ''X-API-Key'' = Some ''[REDACTED]''"
proof -
  have d: "distinct (map fst sample_headers)" by (simp add: sample_headers_def)
  show ?thesis
    using d
      sanitizeHeaders_redacts_sensitive [OF d, of "''Authorization''", THEN conjunct1]
      sanitizeHeaders_redacts_sensitive [OF d, of "''content-type''", THEN conjunct1]
      sanitizeHeaders_redacts_sensitive [OF d, of "''X-API-Key''", THEN conjunct1]
    by (simp add: lower_sample_names getProperty_def sample_headers_def)
qed

subsection \<open>C3: one result per target, in order\<close>

text \<open>
  Claim C3. For every event, target list, network and world, \<open>forwardEvent\<close> returns
  exactly one result per configured target, in the order of the target list, and it
  issues exactly one request per target, in that order. The attempts are sequential:
  the first request is issued when \<open>forwardEvent\<close> is called, and each later request
  at the time the request before it settled, whether that one was fulfilled or
  rejected; \<open>forwardEvent\<close> returns when the last request has settled. The result
  at position \<open>i\<close> is the result of the attempt on target \<open>i\<close> made at the time the
  log gives for it, whatever the outcomes of the attempts before: a failure does not
  end the loop.
\<close>

theorem forwardEvent_one_result_per_target:
  "length (fst (forwardEvent net fw event w)) = length (fw_endpoints fw) \<and>
   map fr_endpoint (fst (forwardEvent net fw event w)) = fw_endpoints fw \<and>
   map (pr_url \<circ> fst) (posted (snd (forwardEvent net fw event w))) =
     map (pr_url \<circ> fst) (posted w) @ fw_endpoints fw \<and>
   (\<forall>i < length (fw_endpoints fw).
      fst (forwardEvent net fw event w) ! i =
        fst (forwardToEndpoint net (fw_timeout fw) event (fw_endpoints fw ! i) (clock w)
               (snd (forwardEvent net (fw\<lparr>fw_endpoints := take i (fw_endpoints fw)\<rparr>) event w)))) \<and>
   (let log = drop (length (posted w)) (posted (snd (forwardEvent net fw event w)))
    in take (length (posted w)) (posted (snd (forwardEvent net fw event w))) = posted w \<and>
       length log = length (fw_endpoints fw) \<and>
       (fw_endpoints fw \<noteq> [] \<longrightarrow> snd (log ! 0) = clock w) \<and>
       (\<forall>i. Suc i < length (fw_endpoints fw) \<longrightarrow>
          snd (log ! Suc i) = snd (net (fst (log ! i)) (snd (log ! i)))) \<and>
       (\<forall>i < length (fw_endpoints fw).
          fst (log ! i) =
            forwardRequest (fw_timeout fw) event (fw_endpoints fw ! i) (snd (log ! i)) \<and>
          fst (forwardEvent net fw event w) ! i =
            fst (forwardToEndpoint net (fw_timeout fw) event (fw_endpoints fw ! i) (clock w)
                   \<lparr>clock = snd (log ! i), posted = []\<rparr>)) \<and>
       clock (snd (forwardEvent net fw event w)) =
         (if fw_endpoints fw = [] then clock w
          else snd (net (fst (last log)) (snd (last log)))))"
proof -
  let ?eps = "fw_endpoints fw"
  let ?run = "\<lambda>xs. forwardLoop net (fw_timeout fw) event (clock w) xs [] w"
  let ?final = "posted (snd (?run ?eps))"
  let ?log = "drop (length (posted w)) ?final"
  let ?t = "\<lambda>i. clock (snd (?run (take i ?eps)))"
  have fe: "\<And>f. forwardEvent net f event w =
              forwardLoop net (fw_timeout f) event (clock w) (fw_endpoints f) [] w"
    by (simp add: forwardEvent_def Let_def)
  have len_final: "length ?final = length (posted w) + length ?eps"
    by (simp add: forwardLoop_posted_length)
  have front: "take (length (posted w)) ?final = posted w"
    using forwardLoop_log_prefix [of 0 ?eps w net "fw_timeout fw" event "clock w"] by simp
  have len_log: "length ?log = length ?eps"
    using len_final by simp
  have entry: "?log ! i = (forwardRequest (fw_timeout fw) event (?eps ! i) (?t i), ?t i)"
    if "i < length ?eps" for i
    using that len_final forwardLoop_log_nth [of i ?eps net "fw_timeout fw" event "clock w" w]
    by simp
  have t0: "?t 0 = clock w" by simp
  have tS: "?t (Suc i) = snd (net (forwardRequest (fw_timeout fw) event (?eps ! i) (?t i)) (?t i))"
    if "i < length ?eps" for i
    using that by (rule forwardLoop_clock_Suc)
  have first: "?eps \<noteq> [] \<longrightarrow> snd (?log ! 0) = clock w"
    using entry [of 0] t0 by simp
  have chain: "\<forall>i. Suc i < length ?eps \<longrightarrow>
      snd (?log ! Suc i) = snd (net (fst (?log ! i)) (snd (?log ! i)))"
  proof (intro allI impI)
    fix i assume i: "Suc i < length ?eps"
    then have "i < length ?eps" by simp
    with i entry [of i] entry [of "Suc i"] tS [of i] show
      "snd (?log ! Suc i) = snd (net (fst (?log ! i)) (snd (?log ! i)))"
      by simp
  qed
  have each: "\<forall>i < length ?eps.
      fst (?log ! i) = forwardRequest (fw_timeout fw) event (?eps ! i) (snd (?log ! i)) \<and>
      fst (?run ?eps) ! i =
        fst (forwardToEndpoint net (fw_timeout fw) event (?eps ! i) (clock w)
               \<lparr>clock = snd (?log ! i), posted = []\<rparr>)"
  proof (intro allI impI)
    fix i assume i: "i < length ?eps"
    have "fst (?run ?eps) ! i =
            fst (forwardToEndpoint net (fw_timeout fw) event (?eps ! i) (clock w)
                   (snd (?run (take i ?eps))))"
      using i by (rule forwardLoop_nth)
    also have "\<dots> = fst (forwardToEndpoint net (fw_timeout fw) event (?eps ! i) (clock w)
                   \<lparr>clock = ?t i, posted = []\<rparr>)"
      by (rule forwardToEndpoint_result_clock)
    finally show "fst (?log ! i) = forwardRequest (fw_timeout fw) event (?eps ! i) (snd (?log ! i)) \<and>
      fst (?run ?eps) ! i =
        fst (forwardToEndpoint net (fw_timeout fw) event (?eps ! i) (clock w)
               \<lparr>clock = snd (?log ! i), posted = []\<rparr>)"
      using entry [OF i] by simp
  qed
  have final_clock: "clock (snd (?run ?eps)) =
      (if ?eps = [] then clock w else snd (net (fst (last ?log)) (snd (last ?log))))"
  proof (cases "?eps = []")
    case True
    then show ?thesis by simp
  next
    case False
    define k where "k = length ?eps - 1"
    from False have k: "k < length ?eps" "Suc k = length ?eps" by (simp_all add: k_def)
    have "?log \<noteq> []"
      using False len_log by (metis length_0_conv)
    then have "last ?log = ?log ! (length ?log - 1)"
      by (rule last_conv_nth)
    then have "last ?log = ?log ! k"
      by (simp only: len_log k_def)
    then have l: "last ?log = (forwardRequest (fw_timeout fw) event (?eps ! k) (?t k), ?t k)"
      using entry [OF k(1)] by simp
    have "clock (snd (?run ?eps)) = ?t (Suc k)"
      using k(2) by simp
    with tS [OF k(1)] l False show ?thesis by simp
  qed
  have old: "\<forall>i < length ?eps.
      fst (forwardEvent net fw event w) ! i =
        fst (forwardToEndpoint net (fw_timeout fw) event (?eps ! i) (clock w)
               (snd (forwardEvent net (fw\<lparr>fw_endpoints := take i ?eps\<rparr>) event w)))"
    by (simp add: fe forwardLoop_nth)
  have basic: "length (fst (forwardEvent net fw event w)) = length ?eps"
    "map fr_endpoint (fst (forwardEvent net fw event w)) = ?eps"
    "map (pr_url \<circ> fst) (posted (snd (forwardEvent net fw event w))) =
       map (pr_url \<circ> fst) (posted w) @ ?eps"
    by (simp_all add: fe forwardLoop_length forwardLoop_endpoints forwardLoop_posted_urls)
  from front len_log first chain each final_clock
  have new: "(let log = drop (length (posted w)) (posted (snd (forwardEvent net fw event w)))
    in take (length (posted w)) (posted (snd (forwardEvent net fw event w))) = posted w \<and>
       length log = length ?eps \<and>
       (?eps \<noteq> [] \<longrightarrow> snd (log ! 0) = clock w) \<and>
       (\<forall>i. Suc i < length ?eps \<longrightarrow>
          snd (log ! Suc i) = snd (net (fst (log ! i)) (snd (log ! i)))) \<and>
       (\<forall>i < length ?eps.
          fst (log ! i) =
            forwardRequest (fw_timeout fw) event (?eps ! i) (snd (log ! i)) \<and>
          fst (forwardEvent net fw event w) ! i =
            fst (forwardToEndpoint net (fw_timeout fw) event (?eps ! i) (clock w)
                   \<lparr>clock = snd (log ! i), posted = []\<rparr>)) \<and>
       clock (snd (forwardEvent net fw event w)) =
         (if ?eps = [] then clock w
          else snd (net (fst (last log)) (snd (last log)))))"
    unfolding Let_def fe by blast
  from basic old new show ?thesis by blast
qed

theorem forwardEvent_one_result_per_target_witness:
  "(1::nat) < length (fw_endpoints sample_forwarder) \<and>
   fst (forwardEvent sample_network sample_forwarder sample_event sample_world) =
     [\<lparr>fr_success = False, fr_endpoint = ''http://localhost:4000/a'', fr_statusCode = None,
       fr_error = Some ''timeout of 5000ms exceeded'', fr_responseTime = Some 5000\<rparr>,
      \<lparr>fr_success = True, fr_endpoint = ''http://localhost:4001/b'', fr_statusCode = Some 200,
       fr_error = None, fr_responseTime = Some 12\<rparr>] \<and>
   posted (snd (forwardEvent sample_network sample_forwarder sample_event sample_world)) =
     [(forwardRequest 5000 sample_event ''http://localhost:4000/a'' 1700000000500, 1700000000500),
      (forwardRequest 5000 sample_event ''http://localhost:4001/b'' 1700000005500, 1700000005500)] \<and>
   snd (sample_network (forwardRequest 5000 sample_event ''http://localhost:4000/a'' 1700000000500)
          1700000000500) = 1700000005500 \<and>
   clock (snd (forwardEvent sample_network sample_forwarder sample_event sample_world)) =
     1700000005512"
  using forwardEvent_one_result_per_target
    [of sample_network sample_forwarder sample_event sample_world]
  by (simp add: forwardEvent_def forwardToEndpoint_def axios_post_def forwardRequest_def
      sample_network_def sample_forwarder_def sample_world_def validateStatus_def Let_def)

subsection \<open>C4: what a forward attempt records\<close>

text \<open>
  Claim C4, as the specification states it, fails: a target that answers 404 is
  recorded as a failure with an error message and without a status code.
\<close>

theorem non_2xx_recorded_as_error_counterexample:
  "fst (not_found_network
          (forwardRequest 5000 sample_event ''http://localhost:4000/a'' (clock sample_world))
          (clock sample_world)) = HttpResponse 404 \<and>
   fr_statusCode (fst (forwardToEndpoint not_found_network 5000 sample_event
                         ''http://localhost:4000/a'' (clock sample_world) sample_world)) = None \<and>
   fr_error (fst (forwardToEndpoint not_found_network 5000 sample_event
                    ''http://localhost:4000/a'' (clock sample_world) sample_world)) =
     Some ''Request failed with status code 404''"
  by code_simp

text \<open>
  Claim C4, amended. A forward attempt whose exchange completes with a status from
  200 to 299 is recorded as successful, with that status in the status-code field and
  no error. An exchange that completes with any other status is recorded as failed,
  without a status code, with the error message \<open>Request failed with status code N\<close>.
  A failure of the transport is recorded as failed, without a status code, with the
  message of the transport.
\<close>

theorem forwardToEndpoint_records_outcome:
  assumes "net (forwardRequest timeout event endpoint (clock w)) (clock w) = (outcome, settled)"
  shows "fst (forwardToEndpoint net timeout event endpoint start w) =
     (case outcome of
        HttpResponse s \<Rightarrow>
          if 200 \<le> s \<and> s < 300
          then \<lparr>fr_success = True, fr_endpoint = endpoint, fr_statusCode = Some s,
                fr_error = None, fr_responseTime = Some (settled - clock w)\<rparr>
          else \<lparr>fr_success = False, fr_endpoint = endpoint, fr_statusCode = None,
                fr_error = Some (''Request failed with status code '' @ decimal s),
                fr_responseTime = Some (settled - clock w)\<rparr>
      | TransportError msg \<Rightarrow>
          \<lparr>fr_success = False, fr_endpoint = endpoint, fr_statusCode = None,
           fr_error = Some msg, fr_responseTime = Some (settled - clock w)\<rparr>)"
  using assms
  by (simp add: forwardToEndpoint_def axios_post_def validateStatus_def Let_def
      split: http_outcome.split)

theorem forwardToEndpoint_records_outcome_witness:
  "fst (forwardToEndpoint not_found_network 5000 sample_event ''http://localhost:4000/a'' 0
          sample_world) =
     \<lparr>fr_success = False, fr_endpoint = ''http://localhost:4000/a'', fr_statusCode = None,
      fr_error = Some ''Request failed with status code 404'', fr_responseTime = Some 12\<rparr> \<and>
   fst (forwardToEndpoint sample_network 5000 sample_event ''http://localhost:4001/b'' 0
          sample_world) =
     \<lparr>fr_success = True, fr_endpoint = ''http://localhost:4001/b'', fr_statusCode = Some 200,
      fr_error = None, fr_responseTime = Some 12\<rparr>"
proof -
  have a: "not_found_network
             (forwardRequest 5000 sample_event ''http://localhost:4000/a'' (clock sample_world))
             (clock sample_world) = (HttpResponse 404, 1700000000512)"
    by (simp add: not_found_network_def sample_world_def)
  have b: "sample_network
             (forwardRequest 5000 sample_event ''http://localhost:4001/b'' (clock sample_world))
             (clock sample_world) = (HttpResponse 200, 1700000000512)"
    by (simp add: sample_network_def sample_world_def forwardRequest_def)
  show ?thesis
    using forwardToEndpoint_records_outcome
        [of not_found_network 5000 sample_event "''http://localhost:4000/a''" sample_world
          "HttpResponse 404" 1700000000512 0, OF a]
      forwardToEndpoint_records_outcome
        [of sample_network 5000 sample_event "''http://localhost:4001/b''" sample_world
          "HttpResponse 200" 1700000000512 0, OF b]
    by (simp add: decimal_404 sample_world_def)
qed

subsection \<open>C5: acknowledgment before fan-out\<close>

text \<open>
  Claim C5. On every call that is processed successfully, \<open>handleWebhook\<close> first
  writes the 200 acknowledgment with \<open>success\<close>, the event id and the timestamp, and
  only then invokes the registered callback with the event. On no call is the
  callback invoked before that acknowledgment has been written.
\<close>

theorem handleWebhook_acknowledges_before_callback:
  "(rq_body req \<noteq> None \<longrightarrow>
      take 2 (handleWebhook rcv req g) =
        [LogReceived (uuid g), Respond 200 (Ack True (uuid g) (ISOString (now g)))]) \<and>
   (rq_body req \<noteq> None \<and> eventCallback rcv \<noteq> None \<longrightarrow>
      handleWebhook rcv req g ! 2 = Callback (buildEvent req g)) \<and>
   (\<forall>pre ev post. handleWebhook rcv req g = pre @ Callback ev # post \<longrightarrow>
      ev = buildEvent req g \<and>
      Respond 200 (Ack True (ev_id ev) (ISOString (ev_timestamp ev))) \<in> set pre)"
  by (auto simp add: handleWebhook_def catchBlock_def Let_def ev_id_buildEvent
      ev_timestamp_buildEvent Cons_eq_append_conv split: option.splits)

theorem handleWebhook_acknowledges_before_callback_witness:
  "rq_body sample_request \<noteq> None \<and> eventCallback sample_receiver \<noteq> None \<and>
   handleWebhook sample_receiver sample_request sample_fresh =
     [LogReceived (uuid sample_fresh),
      Respond 200 (Ack True (uuid sample_fresh) (ISOString (now sample_fresh))),
      Callback (buildEvent sample_request sample_fresh)]"
proof -
  have len: "length (handleWebhook sample_receiver sample_request sample_fresh) = 3"
    by (simp add: handleWebhook_def sample_receiver_def sample_request_def Let_def)
  have b: "rq_body sample_request \<noteq> None" by (simp add: sample_request_def)
  have c: "eventCallback sample_receiver \<noteq> None" by (simp add: sample_receiver_def)
  from handleWebhook_acknowledges_before_callback [of sample_request sample_receiver sample_fresh]
    b c
  have "take 2 (handleWebhook sample_receiver sample_request sample_fresh) =
          [LogReceived (uuid sample_fresh),
           Respond 200 (Ack True (uuid sample_fresh) (ISOString (now sample_fresh)))]"
    and "handleWebhook sample_receiver sample_request sample_fresh ! 2 =
           Callback (buildEvent sample_request sample_fresh)"
    by simp_all
  with len b c show ?thesis
    by (cases "handleWebhook sample_receiver sample_request sample_fresh" rule: list.exhaust)
       (auto simp: length_Suc_conv numeral_3_eq_3 numeral_2_eq_2)
qed

subsection \<open>C6: failure before the acknowledgment\<close>

text \<open>
  Claim C6. On every call on which building the event fails (the body is
  undefined), \<open>handleWebhook\<close> logs the error and answers 500 with the failure body,
  once; the callback is not invoked.
\<close>

theorem handleWebhook_failure_answers_500:
  assumes "rq_body req = None"
  shows "handleWebhook rcv req g =
           [LogError, Respond 500 (Failure False ''Internal server error'')] \<and>
         (\<forall>ev. Callback ev \<notin> set (handleWebhook rcv req g))"
  using assms by (simp add: handleWebhook_def catchBlock_def Let_def)

theorem handleWebhook_failure_answers_500_witness:
  "rq_body no_body_request = None \<and>
   handleWebhook sample_receiver no_body_request sample_fresh =
     [LogError, Respond 500 (Failure False ''Internal server error'')]"
proof -
  have b: "rq_body no_body_request = None" by (simp add: no_body_request_def)
  from handleWebhook_failure_answers_500 [OF b, of sample_receiver sample_fresh] b
  show ?thesis by simp
qed

subsection \<open>C7: broadcast\<close>

text \<open>
  Claim C7. For every event and hub state, \<open>broadcastEvent\<close> adds exactly one to the
  total-event counter, records the timestamp of the event as the last event, and
  emits the event once to every connected socket; the set of sockets and the
  connection counter are unchanged. With no socket connected nothing is emitted and
  the counter is still incremented.
\<close>

theorem broadcastEvent_counts_and_emits:
  "totalEvents (stats (broadcastEvent event hub)) = totalEvents (stats hub) + 1 \<and>
   lastEvent (stats (broadcastEvent event hub)) = Some (ev_timestamp event) \<and>
   emitted (broadcastEvent event hub) =
     emitted hub @ map (\<lambda>socket. (socket, WebhookMsg event)) (sockets hub) \<and>
   sockets (broadcastEvent event hub) = sockets hub \<and>
   activeConnections (stats (broadcastEvent event hub)) = activeConnections (stats hub) \<and>
   (sockets hub = [] \<longrightarrow> emitted (broadcastEvent event hub) = emitted hub)"
  by (simp add: broadcastEvent_def io_emit_def Let_def)

theorem broadcastEvent_counts_and_emits_witness:
  "sockets idle_hub = [] \<and>
   totalEvents (stats (broadcastEvent sample_event idle_hub)) = 1 \<and>
   emitted (broadcastEvent sample_event idle_hub) = [] \<and>
   totalEvents (stats (broadcastEvent sample_event sample_hub)) = 42 \<and>
   emitted (broadcastEvent sample_event sample_hub) =
     [(''s1'', WebhookMsg sample_event), (''s2'', WebhookMsg sample_event)]"
  using broadcastEvent_counts_and_emits [of sample_event idle_hub]
    broadcastEvent_counts_and_emits [of sample_event sample_hub]
  by (simp add: idle_hub_def newWebSocketServer_def sample_hub_def)

subsection \<open>C8: successful connection and reconnection\<close>

text \<open>
  Claim C8. On every successful connection of the session, the first one or a
  reconnection, after any history of the connection: the session sets \<open>connected\<close>,
  records \<open>lastConnected\<close>, resets the attempt counter to zero, clears the last error
  and invokes the status callback (when one is registered) with a copy of that
  status. Both kinds of connection reach the session as the \<open>connect\<close> event.
\<close>

theorem successful_connection_resets_status:
  "(h = Established \<or> h = Reestablished n) \<longrightarrow>
     handler t OnConnect c = onTransport t h c \<and>
     onTransport t h c =
       (c\<lparr>status := \<lparr>connected = True, lastConnected = Some t, reconnectAttempts = 0,
                      error = None\<rparr>\<rparr>,
        (if has_statusCallback c
         then [StatusCallback \<lparr>connected = True, lastConnected = Some t, reconnectAttempts = 0,
                               error = None\<rparr>]
         else []) @ [Resolve]) \<and>
     status (fst (session (history @ [(t, h)]) c)) =
       \<lparr>connected = True, lastConnected = Some t, reconnectAttempts = 0, error = None\<rparr> \<and>
     snd (session (history @ [(t, h)]) c) =
       snd (session history c) @
       (if has_statusCallback c
        then [StatusCallback \<lparr>connected = True, lastConnected = Some t, reconnectAttempts = 0,
                              error = None\<rparr>]
        else []) @ [Resolve]"
proof
  assume h: "h = Established \<or> h = Reestablished n"
  let ?c = "fst (session history c)"
  have one: "\<And>c'. onTransport t h c' =
       (c'\<lparr>status := \<lparr>connected = True, lastConnected = Some t, reconnectAttempts = 0,
                      error = None\<rparr>\<rparr>,
        (if has_statusCallback c'
         then [StatusCallback \<lparr>connected = True, lastConnected = Some t, reconnectAttempts = 0,
                               error = None\<rparr>]
         else []) @ [Resolve])"
    using h by (rule onTransport_connect)
  have listener: "handler t OnConnect c = onTransport t h c"
    using h by (auto simp add: onTransport_def Let_def)
  have last: "session [(t, h)] ?c = onTransport t h ?c"
    by (simp add: Let_def split: prod.split)
  have run: "session (history @ [(t, h)]) c =
      (fst (onTransport t h ?c), snd (session history c) @ snd (onTransport t h ?c))"
    using session_append [of history "[(t, h)]" c] last by simp
  have cb: "has_statusCallback ?c = has_statusCallback c"
    by (rule session_keeps_statusCallback)
  from listener one [of c] run one [of ?c] cb
  show "handler t OnConnect c = onTransport t h c \<and>
     onTransport t h c =
       (c\<lparr>status := \<lparr>connected = True, lastConnected = Some t, reconnectAttempts = 0,
                      error = None\<rparr>\<rparr>,
        (if has_statusCallback c
         then [StatusCallback \<lparr>connected = True, lastConnected = Some t, reconnectAttempts = 0,
                               error = None\<rparr>]
         else []) @ [Resolve]) \<and>
     status (fst (session (history @ [(t, h)]) c)) =
       \<lparr>connected = True, lastConnected = Some t, reconnectAttempts = 0, error = None\<rparr> \<and>
     snd (session (history @ [(t, h)]) c) =
       snd (session history c) @
       (if has_statusCallback c
        then [StatusCallback \<lparr>connected = True, lastConnected = Some t, reconnectAttempts = 0,
                              error = None\<rparr>]
        else []) @ [Resolve]"
    by simp
qed

theorem successful_connection_resets_status_witness:
  "status (fst (session sample_history registered_client)) =
     \<lparr>connected = False, lastConnected = Some 1700000000000, reconnectAttempts = 0,
      error = Some ''xhr poll error''\<rparr> \<and>
   status (fst (session (sample_history @ [(1700000007000, Reestablished 2)]) registered_client)) =
     \<lparr>connected = True, lastConnected = Some 1700000007000, reconnectAttempts = 0,
      error = None\<rparr> \<and>
   snd (session (sample_history @ [(1700000007000, Reestablished 2)]) registered_client) =
     snd (session sample_history registered_client) @
     [StatusCallback \<lparr>connected = True, lastConnected = Some 1700000007000,
                      reconnectAttempts = 0, error = None\<rparr>, Resolve]"
proof -
  have r: "Reestablished 2 = (Established :: string transport_event) \<or>
           Reestablished 2 = (Reestablished 2 :: string transport_event)"
    by simp
  have before: "status (fst (session sample_history registered_client)) =
     \<lparr>connected = False, lastConnected = Some 1700000000000, reconnectAttempts = 0,
      error = Some ''xhr poll error''\<rparr>"
    by (simp add: sample_history_def registered_client_def newWebSocketClient_def
        onTransport_def updateStatus_def Let_def)
  have cb: "has_statusCallback registered_client"
    by (simp add: registered_client_def)
  from successful_connection_resets_status
    [of "Reestablished 2" 2 1700000007000 registered_client sample_history] r before cb
  show ?thesis by simp
qed

subsection \<open>C9: adding a target\<close>

text \<open>
  Claim C9. \<open>addEndpoint\<close> with a URL that is already in the target list leaves the
  list unchanged; with a URL that is not in the list it appends the URL. Adding the
  same URL a second time changes nothing.
\<close>

theorem addEndpoint_idempotent:
  "(endpoint \<in> set endpoints \<longrightarrow> addEndpoint endpoints endpoint = endpoints) \<and>
   (endpoint \<notin> set endpoints \<longrightarrow> addEndpoint endpoints endpoint = endpoints @ [endpoint]) \<and>
   addEndpoint (addEndpoint endpoints endpoint) endpoint = addEndpoint endpoints endpoint"
  by (simp add: addEndpoint_def)

theorem addEndpoint_idempotent_witness:
  "''http://localhost:4000/a'' \<in> set (fw_endpoints sample_forwarder) \<and>
   addEndpoint (fw_endpoints sample_forwarder) ''http://localhost:4000/a'' =
     fw_endpoints sample_forwarder \<and>
   ''http://localhost:4002/c'' \<notin> set (fw_endpoints sample_forwarder) \<and>
   addEndpoint (fw_endpoints sample_forwarder) ''http://localhost:4002/c'' =
     [''http://localhost:4000/a'', ''http://localhost:4001/b'', ''http://localhost:4002/c'']"
  using addEndpoint_idempotent [of "''http://localhost:4000/a''" "fw_endpoints sample_forwarder"]
    addEndpoint_idempotent [of "''http://localhost:4002/c''" "fw_endpoints sample_forwarder"]
  by (simp add: sample_forwarder_def)

subsection \<open>C10: origin of the event\<close>

text \<open>
  Claim C10, as the specification states it, fails: a request whose
  \<open>X-Forwarded-For\<close> header is present with an empty value gets the peer address as
  its \<open>ip\<close>.
\<close>

theorem empty_forwarded_for_uses_peer_address_counterexample:
  "getProperty (rq_headers empty_forwarded_request) ''x-forwarded-for'' = Some [] \<and>
   rq_ip empty_forwarded_request = Some ''10.0.0.1'' \<and>
   ev_ip (buildEvent empty_forwarded_request sample_fresh) = ''10.0.0.1''"
  by (simp add: empty_forwarded_request_def sample_request_def buildEvent_def getProperty_def
      createWebhookEvent_def resolveSource_def req_get_def js_or_def lower_forwarded_for Let_def)

text \<open>
  Claim C10, amended. The \<open>ip\<close> of the event built by the gateway equals its
  \<open>source\<close>. Both are the value of the \<open>X-Forwarded-For\<close> header when the header is
  present with a non-empty value; otherwise the peer address when it is defined and
  non-empty; otherwise \<open>unknown\<close>.
\<close>

theorem event_ip_equals_source:
  "ev_ip (buildEvent req g) = ev_source (buildEvent req g) \<and>
   (\<forall>v. getProperty (rq_headers req) ''x-forwarded-for'' = Some v \<and> v \<noteq> [] \<longrightarrow>
        ev_source (buildEvent req g) = v) \<and>
   (\<forall>a. getProperty (rq_headers req) ''x-forwarded-for'' \<in> {None, Some []} \<and>
        rq_ip req = Some a \<and> a \<noteq> [] \<longrightarrow>
        ev_source (buildEvent req g) = a) \<and>
   (getProperty (rq_headers req) ''x-forwarded-for'' \<in> {None, Some []} \<and>
    rq_ip req \<in> {None, Some []} \<longrightarrow>
        ev_source (buildEvent req g) = ''unknown'')"
  by (auto simp add: buildEvent_def createWebhookEvent_def resolveSource_def req_get_def
      js_or_def lower_forwarded_for Let_def split: option.split)

theorem event_ip_equals_source_witness:
  "getProperty (rq_headers sample_request) ''x-forwarded-for'' = Some ''198.51.100.4'' \<and>
   ''198.51.100.4'' \<noteq> [] \<and>
   ev_source (buildEvent sample_request sample_fresh) = ''198.51.100.4'' \<and>
   ev_ip (buildEvent sample_request sample_fresh) = ''198.51.100.4''"
proof -
  have h: "getProperty (rq_headers sample_request) ''x-forwarded-for'' = Some ''198.51.100.4''"
    by (simp add: getProperty_def sample_request_def)
  from event_ip_equals_source [of sample_request sample_fresh] h show ?thesis by simp
qed

end
